theory Spec2Isabelle
  imports Complex_Main
begin

section \<open>Python values and exceptions\<close>

text \<open>
  The values that the dictionaries of the sources hold (\<^verbatim>\<open>dict[str, Any]\<close>), and the
  exceptions the sources raise. A Python \<^verbatim>\<open>float\<close> is modelled by the rational
  number that its decimal literal (or the exact quotient of a true division) denotes.
\<close>

datatype pyval =
    PNone
  | PBool bool
  | PInt int
  | PFloat rat
  | PStr string
  | PList "pyval list"

text \<open>Python truthiness, as \<^verbatim>\<open>if v\<close> tests it.\<close>

fun truthy :: "pyval \<Rightarrow> bool" where
  "truthy PNone = False"
| "truthy (PBool b) = b"
| "truthy (PInt i) = (i \<noteq> 0)"
| "truthy (PFloat x) = (x \<noteq> 0)"
| "truthy (PStr s) = (s \<noteq> [])"
| "truthy (PList vs) = (vs \<noteq> [])"

datatype pyerror =
    NotImplementedError string
  | KeyError string
  | ValidationError "string list"

type_synonym pydict = "string \<rightharpoonup> pyval"

section \<open>graph/state.py\<close>

text \<open>
  \<^verbatim>\<open>IntentType = Literal["policy", "sql", "web", "product_info", "complaint"]\<close> and
  \<^verbatim>\<open>RouteType = Literal["policy", "sql", "web", "clarification", "fallback"]\<close>:
  closed sets of string literals, each a datatype with the function that gives the literal.
\<close>

datatype IntentType =
    Intent_policy
  | Intent_sql
  | Intent_web
  | Intent_product_info
  | Intent_complaint

fun IntentType_literal :: "IntentType \<Rightarrow> string" where
  "IntentType_literal Intent_policy = ''policy''"
| "IntentType_literal Intent_sql = ''sql''"
| "IntentType_literal Intent_web = ''web''"
| "IntentType_literal Intent_product_info = ''product_info''"
| "IntentType_literal Intent_complaint = ''complaint''"

datatype RouteType =
    Route_policy
  | Route_sql
  | Route_web
  | Route_clarification
  | Route_fallback


text \<open>
  \<^verbatim>\<open>class AgentState(TypedDict, total=False)\<close>: every key may be absent, which is the
  outer \<open>option\<close>; a key annotated \<^verbatim>\<open>Optional[...]\<close> may also be present with the
  value \<^verbatim>\<open>None\<close>, which is the inner \<open>option\<close>. The type \<open>'m\<close> stands for
  \<^verbatim>\<open>BaseMessage\<close>, a class of the message library. A node returns a partial state,
  which is a value of the same type.
\<close>

type_synonym row = "(string \<times> pyval) list"

record 'm AgentState =
  messages :: "'m list option"
  user_query :: "string option"
  intent :: "IntentType option"
  confidence :: "rat option"
  missing_info :: "string list option"
  routing_rationale :: "string option option"
  route :: "RouteType option"
  retrieved_docs :: "pyval list option"
  policy_context :: "string option option"
  sql_query :: "string option option"
  sql_result :: "row list option option"
  sql_error :: "string option option"
  web_results :: "row list option option"
  web_context :: "string option option"
  fallback_reason :: "string option option"
  handoff_context :: "row option option"
  final_response :: "string option option"
  error :: "string option option"

text \<open>The dictionary with no key.\<close>

definition empty_state :: "'m AgentState" where
  "empty_state =
     \<lparr> messages = None, user_query = None, intent = None, confidence = None,
       missing_info = None, routing_rationale = None, route = None,
       retrieved_docs = None, policy_context = None, sql_query = None,
       sql_result = None, sql_error = None, web_results = None, web_context = None,
       fallback_reason = None, handoff_context = None, final_response = None,
       error = None \<rparr>"

text \<open>A key counts as set when it is present with a value other than \<^verbatim>\<open>None\<close>.\<close>

definition is_set :: "'a option option \<Rightarrow> bool" where
  "is_set v = (case v of None \<Rightarrow> False | Some None \<Rightarrow> False | Some (Some x) \<Rightarrow> True)"


section \<open>agents/router.py\<close>

text \<open>
  \<^verbatim>\<open>
  def route(state: AgentState) -> dict:
      raise NotImplementedError("Router implementation in Phase 1")
  \<close>
\<close>

definition route_fn :: "'m AgentState \<Rightarrow> pyerror + 'm AgentState" where
  "route_fn state = Inl (NotImplementedError ''Router implementation in Phase 1'')"

section \<open>graph/nodes.py\<close>

text \<open>The seven nodes; the body of each is a single \<^verbatim>\<open>raise NotImplementedError(...)\<close>.\<close>

definition router_node :: "'m AgentState \<Rightarrow> pyerror + 'm AgentState" where
  "router_node state = Inl (NotImplementedError ''Phase 1'')"



definition sql_node :: "'m AgentState \<Rightarrow> pyerror + 'm AgentState" where
  "sql_node state = Inl (NotImplementedError ''Phase 5'')"





definition sets_sql_result :: "pyerror + 'm AgentState \<Rightarrow> bool" where
  "sets_sql_result r = (case r of Inl e \<Rightarrow> False | Inr u \<Rightarrow> is_set (sql_result u))"

definition sets_sql_error :: "pyerror + 'm AgentState \<Rightarrow> bool" where
  "sets_sql_error r = (case r of Inl e \<Rightarrow> False | Inr u \<Rightarrow> is_set (sql_error u))"

definition raises :: "pyerror + 'a \<Rightarrow> bool" where
  "raises r = (case r of Inl e \<Rightarrow> True | Inr u \<Rightarrow> False)"

definition route_of :: "pyerror + 'm AgentState \<Rightarrow> RouteType option" where
  "route_of r = (case r of Inl e \<Rightarrow> None | Inr u \<Rightarrow> route u)"

definition fallback_reason_of :: "pyerror + 'm AgentState \<Rightarrow> string option" where
  "fallback_reason_of r =
     (case r of Inl e \<Rightarrow> None
      | Inr u \<Rightarrow> (case fallback_reason u of None \<Rightarrow> None | Some v \<Rightarrow> v))"

section \<open>config/settings.py\<close>

text \<open>
  \<^verbatim>\<open>class Settings(BaseSettings)\<close> is declarative: a table of fields, each with its
  annotation, its default and, for the threshold, the bounds \<^verbatim>\<open>ge\<close> and
  \<^verbatim>\<open>le\<close>.
\<close>

datatype pytype = TStr | TBool | TInt | TFloat | TOptional pytype

record field_info =
  field_name :: string
  field_type :: pytype
  field_default :: pyval
  field_ge :: "rat option"
  field_le :: "rat option"

definition mk_field :: "string \<Rightarrow> pytype \<Rightarrow> pyval \<Rightarrow> field_info" where
  "mk_field n t d =
     \<lparr> field_name = n, field_type = t, field_default = d, field_ge = None, field_le = None \<rparr>"

definition Settings_fields :: "field_info list" where
  "Settings_fields =
     [ mk_field ''openai_api_key'' (TOptional TStr) PNone,
       mk_field ''tavily_api_key'' (TOptional TStr) PNone,
       mk_field ''langchain_tracing_v2'' TBool (PBool False),
       mk_field ''langchain_api_key'' (TOptional TStr) PNone,
       mk_field ''langchain_project'' (TOptional TStr) (PStr ''omni-help''),
       mk_field ''database_url'' TStr (PStr ''sqlite+aiosqlite:///./data/omnihelp.db''),
       mk_field ''chroma_persist_directory'' (TOptional TStr) (PStr ''./data/chroma''),
       mk_field ''qdrant_url'' (TOptional TStr) PNone,
       mk_field ''qdrant_api_key'' (TOptional TStr) PNone,
       \<lparr> field_name = ''router_confidence_threshold'', field_type = TFloat,
         field_default = PFloat (7 / 10), field_ge = Some 0, field_le = Some 1 \<rparr> ]"

text \<open>
  \<^verbatim>\<open>Settings()\<close> takes each field from the settings sources (the process environment
  and the \<^verbatim>\<open>.env\<close> file, names compared without case, unknown names ignored) and
  falls back to the default. The sources are a map from field names to the values decoded
  from them; a value that does not fit the annotation or the bounds makes the constructor
  raise \<^verbatim>\<open>ValidationError\<close>, which names every field that failed.
\<close>

type_synonym env = "string \<rightharpoonup> pyval"

type_synonym Settings = "(string \<times> pyval) list"

fun conforms :: "pytype \<Rightarrow> pyval \<Rightarrow> bool" where
  "conforms (TOptional t) PNone = True"
| "conforms (TOptional t) v = conforms t v"
| "conforms TStr (PStr s) = True"
| "conforms TBool (PBool b) = True"
| "conforms TInt (PInt i) = True"
| "conforms TFloat (PFloat x) = True"
| "conforms t v = False"

definition in_bounds :: "field_info \<Rightarrow> pyval \<Rightarrow> bool" where
  "in_bounds f v =
     (case v of
        PFloat x \<Rightarrow>
          (case field_ge f of None \<Rightarrow> True | Some lo \<Rightarrow> lo \<le> x)
          \<and> (case field_le f of None \<Rightarrow> True | Some hi \<Rightarrow> x \<le> hi)
      | _ \<Rightarrow> True)"

definition field_ok :: "env \<Rightarrow> field_info \<Rightarrow> bool" where
  "field_ok e f =
     (case e (field_name f) of
        None \<Rightarrow> True
      | Some v \<Rightarrow> conforms (field_type f) v \<and> in_bounds f v)"

definition field_value :: "env \<Rightarrow> field_info \<Rightarrow> string \<times> pyval" where
  "field_value e f =
     (field_name f, (case e (field_name f) of None \<Rightarrow> field_default f | Some v \<Rightarrow> v))"

definition Settings_init :: "env \<Rightarrow> pyerror + Settings" where
  "Settings_init e =
     (let failed = filter (\<lambda>f. \<not> field_ok e f) Settings_fields
      in if failed = [] then Inr (map (field_value e) Settings_fields)
         else Inl (ValidationError (map field_name failed)))"

text \<open>Attribute access on an instance.\<close>

definition getattr :: "Settings \<Rightarrow> string \<Rightarrow> pyval option" where
  "getattr s n = map_of s n"

text \<open>
  What the class exposes: the names of the fields of a given annotation, and whether some
  field has a given annotation and default.
\<close>

definition fields_of_type :: "pytype \<Rightarrow> string list" where
  "fields_of_type t = map field_name (filter (\<lambda>f. field_type f = t) Settings_fields)"

definition field_bounds :: "string \<Rightarrow> (rat option \<times> rat option) list" where
  "field_bounds n =
     map (\<lambda>f. (field_ge f, field_le f)) (filter (\<lambda>f. field_name f = n) Settings_fields)"

definition exposes :: "pytype \<Rightarrow> pyval \<Rightarrow> bool" where
  "exposes t d = list_ex (\<lambda>f. field_type f = t \<and> field_default f = d) Settings_fields"

text \<open>
  \<^verbatim>\<open>
  @lru_cache
  def get_settings() -> Settings:
      return Settings()
  \<close>
  The function has no argument, so the cache has one entry at most. The process state holds
  the objects allocated so far (an instance is identified by its address, the index in
  \<open>objects\<close>) and the cache entry. A call that finds the entry returns it and runs no
  body; a call that finds none runs the body with the settings sources as they are at that
  moment, and stores the result only when the body returns: an exception leaves the cache
  as it was.
\<close>

record process =
  objects :: "Settings list"
  cache :: "nat option"

definition get_settings :: "env \<Rightarrow> process \<Rightarrow> (pyerror + nat) \<times> process" where
  "get_settings e p =
     (case cache p of
        Some a \<Rightarrow> (Inr a, p)
      | None \<Rightarrow>
          (case Settings_init e of
             Inl err \<Rightarrow> (Inl err, p)
           | Inr s \<Rightarrow>
               (Inr (length (objects p)),
                p\<lparr>objects := objects p @ [s], cache := Some (length (objects p))\<rparr>)))"

text \<open>A sequence of calls, each with the settings sources of its moment.\<close>

fun get_settings_calls :: "env list \<Rightarrow> process \<Rightarrow> (pyerror + nat) list \<times> process" where
  "get_settings_calls [] p = ([], p)"
| "get_settings_calls (e # es) p =
     (case get_settings e p of
        (r, p') \<Rightarrow> (case get_settings_calls es p' of (rs, p'') \<Rightarrow> (r # rs, p'')))"

definition fresh_process :: process where
  "fresh_process = \<lparr> objects = [], cache = None \<rparr>"

section \<open>tests/evaluation/eval\_router.py\<close>

text \<open>
  \<^verbatim>\<open>r["correct"]\<close>: subscription of a dictionary raises \<^verbatim>\<open>KeyError\<close> on a
  missing key.
\<close>

definition getitem :: "pydict \<Rightarrow> string \<Rightarrow> pyerror + pyval" where
  "getitem r k = (case r k of None \<Rightarrow> Inl (KeyError k) | Some v \<Rightarrow> Inr v)"

text \<open>
  \<^verbatim>\<open>sum(1 for r in results if r["correct"])\<close>: the generator is consumed from left
  to right, and the first record without the key ends the sum with the exception.
\<close>

fun sum_correct :: "pydict list \<Rightarrow> pyerror + nat" where
  "sum_correct [] = Inr 0"
| "sum_correct (r # rs) =
     (case getitem r ''correct'' of
        Inl e \<Rightarrow> Inl e
      | Inr v \<Rightarrow>
          (case sum_correct rs of
             Inl e \<Rightarrow> Inl e
           | Inr n \<Rightarrow> Inr ((if truthy v then 1 else 0) + n)))"

text \<open>
  \<^verbatim>\<open>
  def compute_accuracy(results):
      if not results:
          return 0.0
      return sum(1 for r in results if r["correct"]) / len(results)
  \<close>
\<close>

definition compute_accuracy :: "pydict list \<Rightarrow> pyerror + rat" where
  "compute_accuracy results =
     (if results = [] then Inr 0
      else (case sum_correct results of
              Inl e \<Rightarrow> Inl e
            | Inr n \<Rightarrow> Inr (of_nat n / of_nat (length results))))"


text \<open>The records that count as correct.\<close>

definition is_correct :: "pydict \<Rightarrow> bool" where
  "is_correct r = (case r ''correct'' of None \<Rightarrow> False | Some v \<Rightarrow> truthy v)"

definition has_correct :: "pydict \<Rightarrow> bool" where
  "has_correct r = (case r ''correct'' of None \<Rightarrow> False | Some v \<Rightarrow> True)"

text \<open>
  The accuracy as the specification words it: 0 on the empty list, otherwise the number of
  records whose \<^verbatim>\<open>correct\<close> value is true divided by the number of records.
\<close>

definition accuracy_spec :: "pydict list \<Rightarrow> rat" where
  "accuracy_spec results =
     (if results = [] then 0
      else of_nat (length (filter is_correct results)) / of_nat (length results))"

section \<open>The orchestrator of the specification\<close>

text \<open>
  The sources declare the state and the nodes. The reducer \<^verbatim>\<open>add_messages\<close> is imported
  from the graph library, and no source file builds or runs the graph: the merge of partial
  updates, the edge table, the clarification loop and the entry point are described by the
  specification only. Cancellation and timeouts are not part of this model.
\<close>

text \<open>
  Modelled from the spec: the reducer \<^verbatim>\<open>add_messages\<close> that \<^verbatim>\<open>AgentState.messages\<close>
  is annotated with, whose code is not among the sources. The specification gives it as
  the merge function \<^verbatim>\<open>(existing, incoming) -> existing ++ incoming\<close>.
\<close>

definition add_messages :: "'m list \<Rightarrow> 'm list \<Rightarrow> 'm list" where
  "add_messages existing incoming = existing @ incoming"

text \<open>
  Modelled from the spec: the conversation history of a state, an ordered sequence of
  message entries. The key \<^verbatim>\<open>messages\<close> may be absent from the dictionary, which is
  the empty history.
\<close>

definition history :: "'m AgentState \<Rightarrow> 'm list" where
  "history s = (case messages s of None \<Rightarrow> [] | Some ms \<Rightarrow> ms)"

text \<open>
  Modelled from the spec: the shallow merge of one key, which no source file implements.
  A returned key overwrites, an omitted key persists.
\<close>

definition overwrite :: "'a option \<Rightarrow> 'a option \<Rightarrow> 'a option" where
  "overwrite old new = (case new of None \<Rightarrow> old | Some v \<Rightarrow> Some v)"

text \<open>
  Modelled from the spec: the merge of a partial update into the shared state, which no
  source file implements. Every key is merged shallowly, except the conversation history,
  which goes through the reducer.
\<close>

definition merge_update :: "'m AgentState \<Rightarrow> 'm AgentState \<Rightarrow> 'm AgentState" where
  "merge_update s u =
     \<lparr> messages =
         (case messages u of
            None \<Rightarrow> messages s
          | Some incoming \<Rightarrow> Some (add_messages (history s) incoming)),
       user_query = overwrite (user_query s) (user_query u),
       intent = overwrite (intent s) (intent u),
       confidence = overwrite (confidence s) (confidence u),
       missing_info = overwrite (missing_info s) (missing_info u),
       routing_rationale = overwrite (routing_rationale s) (routing_rationale u),
       route = overwrite (route s) (route u),
       retrieved_docs = overwrite (retrieved_docs s) (retrieved_docs u),
       policy_context = overwrite (policy_context s) (policy_context u),
       sql_query = overwrite (sql_query s) (sql_query u),
       sql_result = overwrite (sql_result s) (sql_result u),
       sql_error = overwrite (sql_error s) (sql_error u),
       web_results = overwrite (web_results s) (web_results u),
       web_context = overwrite (web_context s) (web_context u),
       fallback_reason = overwrite (fallback_reason s) (fallback_reason u),
       handoff_context = overwrite (handoff_context s) (handoff_context u),
       final_response = overwrite (final_response s) (final_response u),
       error = overwrite (error s) (error u) \<rparr>"

text \<open>
  Modelled from the spec: the nodes of the graph that have a handler (the entry and the
  terminal node have none). No source file declares the graph.
\<close>

datatype node =
    N_router
  | N_policy
  | N_order
  | N_web
  | N_clarification
  | N_fallback
  | N_synthesis

text \<open>
  Modelled from the spec: the handler contract \<^verbatim>\<open>(SharedState) -> PartialUpdate\<close>, as
  a table from nodes to handlers. A handler that raises has failed fatally.
\<close>

type_synonym 'm handlers = "node \<Rightarrow> 'm AgentState \<Rightarrow> pyerror + 'm AgentState"

text \<open>
  Modelled from the spec: the static edge table out of the router, from the route to the
  node it selects. No source file declares the edges.
\<close>

fun node_of_route :: "RouteType \<Rightarrow> node" where
  "node_of_route Route_policy = N_policy"
| "node_of_route Route_sql = N_order"
| "node_of_route Route_web = N_web"
| "node_of_route Route_clarification = N_clarification"
| "node_of_route Route_fallback = N_fallback"


text \<open>
  Modelled from the spec: the execution of one node, which no source file implements. The
  orchestrator calls the handler and merges the partial update it returns into the state.
\<close>

definition exec :: "'m handlers \<Rightarrow> node \<Rightarrow> 'm AgentState \<Rightarrow> pyerror + 'm AgentState" where
  "exec h n s = (case h n s of Inl e \<Rightarrow> Inl e | Inr u \<Rightarrow> Inr (merge_update s u))"

text \<open>
  Modelled from the spec: the text of the terminal error surface for an exception; the
  specification does not fix the wording.
\<close>

fun describe :: "pyerror \<Rightarrow> string" where
  "describe (NotImplementedError m) = ''NotImplementedError: '' @ m"
| "describe (KeyError k) = ''KeyError: '' @ k"
| "describe (ValidationError fs) = ''ValidationError: '' @ concat fs"

text \<open>
  Modelled from the spec: the fatal failure, which no source file implements. It sets
  \<^verbatim>\<open>error\<close> on the state, and the orchestrator halts at once, without the synthesizer.
\<close>

definition fatal :: "string \<Rightarrow> 'm AgentState \<Rightarrow> 'm AgentState" where
  "fatal msg s = s\<lparr>error := Some (Some msg)\<rparr>"

text \<open>
  Modelled from the spec: the step from the synthesizer to the terminal state, which no
  source file implements.
\<close>

definition synthesize :: "'m handlers \<Rightarrow> 'm AgentState \<Rightarrow> 'm AgentState" where
  "synthesize h s =
     (case exec h N_synthesis s of Inl e \<Rightarrow> fatal (describe e) s | Inr s' \<Rightarrow> s')"

text \<open>
  Modelled from the spec: the execution of a branch or fallback handler, which no source
  file implements. After the handler returns, control passes to the synthesizer, unless
  the merged state has \<^verbatim>\<open>error\<close> set: a set error overrides normal termination, and
  the orchestrator halts at once, without the synthesizer.
\<close>

definition run_branch :: "'m handlers \<Rightarrow> node \<Rightarrow> 'm AgentState \<Rightarrow> 'm AgentState" where
  "run_branch h n s =
     (case exec h n s of
        Inl e \<Rightarrow> fatal (describe e) s
      | Inr s' \<Rightarrow> if is_set (error s') then s' else synthesize h s')"

text \<open>
  Modelled from the spec: the route forced by the orchestrator once the clarification limit
  is reached, which no source file implements.
\<close>

definition force_fallback :: "'m AgentState \<Rightarrow> 'm AgentState" where
  "force_fallback s =
     s\<lparr>route := Some Route_fallback,
       fallback_reason := Some (Some ''clarification_limit_exceeded'')\<rparr>"

text \<open>
  Modelled from the spec: the loop between the router and the clarification handler, which
  no source file implements. The counter \<open>c\<close> of clarification re-routes is carried beside
  the state and checked before each dispatch of the router; at \<open>maxReroutes\<close> the route
  is forced to fallback. Otherwise the router runs, and the route it leaves in the state
  selects the next node; a state without a route there is a fatal failure. After each
  merge the orchestrator reads \<^verbatim>\<open>error\<close> and halts at once when it is set.
\<close>

function router_loop :: "'m handlers \<Rightarrow> nat \<Rightarrow> nat \<Rightarrow> 'm AgentState \<Rightarrow> 'm AgentState" where
  "router_loop h maxReroutes c s =
     (if maxReroutes \<le> c then run_branch h N_fallback (force_fallback s)
      else
        (case exec h N_router s of
           Inl e \<Rightarrow> fatal (describe e) s
         | Inr s1 \<Rightarrow>
             if is_set (error s1) then s1
             else
               (case route s1 of
                  None \<Rightarrow> fatal ''route is not set'' s1
                | Some Route_clarification \<Rightarrow>
                    (case exec h N_clarification s1 of
                       Inl e \<Rightarrow> fatal (describe e) s1
                     | Inr s2 \<Rightarrow>
                         if is_set (error s2) then s2
                         else router_loop h maxReroutes (Suc c) s2)
                | Some r \<Rightarrow> run_branch h (node_of_route r) s1)))"
  by pat_completeness auto
termination
  by (relation "measure (\<lambda>(h, maxReroutes, c, s). maxReroutes - c)") auto

declare router_loop.simps [simp del]

text \<open>
  Modelled from the spec: the state at the entry of a request, created once per request
  with the query and the prior history and no other key. No source file creates a state.
\<close>

definition initial_state :: "string \<Rightarrow> 'm list \<Rightarrow> 'm AgentState" where
  "initial_state userQuery priorHistory =
     empty_state\<lparr>messages := Some priorHistory, user_query := Some userQuery\<rparr>"

text \<open>
  Modelled from the spec: the entry point \<^verbatim>\<open>run(userQuery, priorHistory)\<close> of the core,
  which no source file implements. It returns the state at termination.
\<close>

definition run :: "'m handlers \<Rightarrow> nat \<Rightarrow> string \<Rightarrow> 'm list \<Rightarrow> 'm AgentState" where
  "run h maxReroutes userQuery priorHistory =
     router_loop h maxReroutes 0 (initial_state userQuery priorHistory)"



section \<open>Properties of the evaluation harness\<close>

lemma sum_correct_count:
  "list_all has_correct results \<Longrightarrow>
     sum_correct results = Inr (length (filter is_correct results))"
  by (induction results)
     (auto simp: getitem_def has_correct_def is_correct_def split: option.splits)

lemma count_le_length_rat:
  "(of_nat (length (filter P xs)) :: rat) \<le> of_nat (length xs)"
  by (simp only: of_nat_le_iff length_filter_le)

lemma accuracy_spec_bounds: "0 \<le> accuracy_spec results \<and> accuracy_spec results \<le> 1"
proof (cases "results = []")
  case True
  then show ?thesis by (simp add: accuracy_spec_def)
next
  case False
  let ?k = "of_nat (length (filter is_correct results)) :: rat"
  let ?n = "of_nat (length results) :: rat"
  have pos: "0 < ?n" using False by simp
  have le: "?k \<le> ?n" by (rule count_le_length_rat)
  have lo: "0 \<le> ?k / ?n" by simp
  have hi: "?k / ?n \<le> 1" using pos le by (simp add: divide_le_eq_1)
  show ?thesis using False lo hi by (simp add: accuracy_spec_def)
qed

text \<open>
  C9. On a list of result records that all carry the \<^verbatim>\<open>correct\<close> key,
  \<^verbatim>\<open>compute_accuracy\<close> returns 0 for the empty list and otherwise the number of
  records whose \<^verbatim>\<open>correct\<close> value is true, divided by the number of records; the
  value returned lies between 0 and 1.
\<close>

theorem compute_accuracy_spec:
  assumes "list_all has_correct results"
  shows "compute_accuracy results = Inr (accuracy_spec results)
           \<and> 0 \<le> accuracy_spec results \<and> accuracy_spec results \<le> 1"
proof -
  have "compute_accuracy results = Inr (accuracy_spec results)"
    using sum_correct_count [OF assms]
    by (simp add: compute_accuracy_def accuracy_spec_def)
  then show ?thesis using accuracy_spec_bounds by simp
qed

theorem compute_accuracy_spec_witness:
  "list_all has_correct
     [[''id'' \<mapsto> PInt 1, ''correct'' \<mapsto> PBool True],
      [''id'' \<mapsto> PInt 2, ''correct'' \<mapsto> PBool False]]
   \<and> compute_accuracy
       [[''id'' \<mapsto> PInt 1, ''correct'' \<mapsto> PBool True],
        [''id'' \<mapsto> PInt 2, ''correct'' \<mapsto> PBool False]] = Inr (1 / 2)"
proof -
  let ?rs = "[[''id'' \<mapsto> PInt 1, ''correct'' \<mapsto> PBool True],
              [''id'' \<mapsto> PInt 2, ''correct'' \<mapsto> PBool False]] :: pydict list"
  have h: "list_all has_correct ?rs" by (simp add: has_correct_def)
  show ?thesis
    using h compute_accuracy_spec [OF h] by (simp add: accuracy_spec_def is_correct_def)
qed

section \<open>Properties of the router and the nodes\<close>

text \<open>
  C1. The confidence gate asks that a router visit with a confidence below the threshold
  produces the route clarification. The router of the sources produces no route on any
  state: \<^verbatim>\<open>route\<close> and \<^verbatim>\<open>router_node\<close> raise \<^verbatim>\<open>NotImplementedError\<close>,
  so the route of the visit is never clarification.
\<close>

theorem router_produces_no_route:
  "route_of (route_fn state) = None \<and> route_of (router_node state) = None
   \<and> route_of (route_fn state) \<noteq> Some Route_clarification
   \<and> route_of (router_node state) \<noteq> Some Route_clarification"
  by (simp add: route_of_def route_fn_def router_node_def)

text \<open>
  C3. On a classification failure the router is to return the route fallback with the
  reason \<^verbatim>\<open>classification_failure\<close>, and never to raise. The router of the sources
  raises on every state and returns neither the route nor the reason.
\<close>

theorem router_always_raises:
  "raises (route_fn state) \<and> raises (router_node state)
   \<and> route_of (route_fn state) \<noteq> Some Route_fallback
   \<and> fallback_reason_of (route_fn state) \<noteq> Some ''classification_failure''"
  by (simp add: raises_def route_of_def fallback_reason_of_def route_fn_def router_node_def)

text \<open>
  C7. For the intent \<^verbatim>\<open>product_info\<close> with a confidence of 0.9 and no missing
  information the route is to be policy. On that state the router of the sources raises
  \<^verbatim>\<open>NotImplementedError\<close> and gives no route.
\<close>

theorem router_product_info_raises:
  "route_fn (empty_state\<lparr>user_query := Some ''Does the X200 support USB-C?'',
       intent := Some Intent_product_info, confidence := Some (9 / 10),
       missing_info := Some []\<rparr> :: (string \<times> string) AgentState)
     = Inl (NotImplementedError ''Router implementation in Phase 1'')
   \<and> route_of (route_fn (empty_state\<lparr>user_query := Some ''Does the X200 support USB-C?'',
       intent := Some Intent_product_info, confidence := Some (9 / 10),
       missing_info := Some []\<rparr> :: (string \<times> string) AgentState)) \<noteq> Some Route_policy"
  by (simp add: route_fn_def route_of_def)

text \<open>
  C4. The order handler is to return exactly one of \<^verbatim>\<open>sql_result\<close> and
  \<^verbatim>\<open>sql_error\<close> and to catch the exceptions of its backend. The node of the sources
  raises \<^verbatim>\<open>NotImplementedError\<close> on every state: it returns no update, so it sets
  neither key.
\<close>

theorem sql_node_sets_neither:
  "sql_node state = Inl (NotImplementedError ''Phase 5'')
   \<and> \<not> sets_sql_result (sql_node state) \<and> \<not> sets_sql_error (sql_node state)"
  by (simp add: sql_node_def sets_sql_result_def sets_sql_error_def)



section \<open>Properties of the settings\<close>

lemma Settings_init_defaults:
  "Settings_init Map.empty = Inr (map (field_value Map.empty) Settings_fields)"
  by (simp add: Settings_init_def field_ok_def)

text \<open>
  C6, as stated: the settings expose a float with the default 0.7 and an integer with the
  default 3. No field of the class is an integer with the default 3.
\<close>

theorem settings_expose_no_reroute_count:
  "\<not> (exposes TFloat (PFloat (7 / 10)) \<and> exposes TInt (PInt 3))"
  by (simp add: exposes_def Settings_fields_def mk_field_def)

text \<open>
  C6, amended. The settings expose the confidence threshold, their only float, with the
  default 0.7, which is the value of an instance built from empty sources; the field is
  bounded to the interval from 0 to 1, both ends included; and the settings have no integer
  field, so no maximum re-route count.
\<close>

theorem settings_surface:
  "exposes TFloat (PFloat (7 / 10))
   \<and> fields_of_type TFloat = [''router_confidence_threshold'']
   \<and> field_bounds ''router_confidence_threshold'' = [(Some 0, Some 1)]
   \<and> list_all (\<lambda>f. in_bounds f (PFloat x) = (0 \<le> x \<and> x \<le> 1))
        (filter (\<lambda>f. field_type f = TFloat) Settings_fields)
   \<and> fields_of_type TInt = []
   \<and> (\<exists>s. Settings_init Map.empty = Inr s
          \<and> getattr s ''router_confidence_threshold'' = Some (PFloat (7 / 10)))"
proof -
  have a: "exposes TFloat (PFloat (7 / 10))"
    by (simp add: exposes_def Settings_fields_def mk_field_def)
  have b: "fields_of_type TFloat = [''router_confidence_threshold'']"
    by (simp add: fields_of_type_def Settings_fields_def mk_field_def)
  have c: "fields_of_type TInt = []"
    by (simp add: fields_of_type_def Settings_fields_def mk_field_def)
  have d: "getattr (map (field_value Map.empty) Settings_fields) ''router_confidence_threshold''
             = Some (PFloat (7 / 10))"
    by (simp add: getattr_def Settings_fields_def mk_field_def field_value_def)
  have e: "field_bounds ''router_confidence_threshold'' = [(Some 0, Some 1)]"
    by (simp add: field_bounds_def Settings_fields_def mk_field_def)
  have f: "list_all (\<lambda>f. in_bounds f (PFloat x) = (0 \<le> x \<and> x \<le> 1))
             (filter (\<lambda>f. field_type f = TFloat) Settings_fields)"
    by (simp add: Settings_fields_def mk_field_def in_bounds_def)
  show ?thesis using a b c d e f Settings_init_defaults by simp
qed

lemma get_settings_hit: "cache p = Some a \<Longrightarrow> get_settings e p = (Inr a, p)"
  by (simp add: get_settings_def)

lemma get_settings_returns_cached:
  "get_settings e p = (Inr a, p') \<Longrightarrow> cache p' = Some a"
  by (auto simp: get_settings_def split: option.splits sum.splits)

lemma get_settings_calls_hit:
  "cache p = Some a \<Longrightarrow> get_settings_calls es p = (replicate (length es) (Inr a), p)"
  by (induction es) (simp_all add: get_settings_hit)

text \<open>
  C10. Once a call of \<^verbatim>\<open>get_settings\<close> has returned an instance, every later call
  returns the same instance, the one at the same address, and leaves the process state as
  it is, whatever the settings sources hold at that moment: the sources are not read again.
  (A call that raises stores nothing, so the hypothesis is a call that returned.)
\<close>

theorem get_settings_memoized:
  assumes "get_settings e p = (Inr a, p')"
  shows "get_settings e' p' = (Inr a, p')
       \<and> get_settings_calls es p' = (replicate (length es) (Inr a), p')"
  using get_settings_returns_cached [OF assms]
  by (simp add: get_settings_hit get_settings_calls_hit)

theorem get_settings_memoized_witness:
  "get_settings Map.empty fresh_process
     = (Inr 0, \<lparr> objects = [map (field_value Map.empty) Settings_fields], cache = Some 0 \<rparr>)
   \<and> get_settings [''router_confidence_threshold'' \<mapsto> PFloat (1 / 2)]
        \<lparr> objects = [map (field_value Map.empty) Settings_fields], cache = Some 0 \<rparr>
     = (Inr 0, \<lparr> objects = [map (field_value Map.empty) Settings_fields], cache = Some 0 \<rparr>)"
proof -
  have h: "get_settings Map.empty fresh_process
     = (Inr 0, \<lparr> objects = [map (field_value Map.empty) Settings_fields], cache = Some 0 \<rparr>)"
    by (simp add: get_settings_def fresh_process_def Settings_init_defaults)
  show ?thesis
    using h get_settings_memoized
      [OF h, of "[''router_confidence_threshold'' \<mapsto> PFloat (1 / 2)]" "[]"]
    by simp
qed

section \<open>Properties of the orchestrator\<close>

subsection \<open>The conversation history only grows\<close>

lemma history_merge_update: "history (merge_update s u) = history s @ history u"
  by (simp add: merge_update_def history_def add_messages_def split: option.splits)

lemma history_fatal: "history (fatal m s) = history s"
  by (simp add: fatal_def history_def)

lemma history_force_fallback: "history (force_fallback s) = history s"
  by (simp add: force_fallback_def history_def)

lemma history_initial_state: "history (initial_state q hist) = hist"
  by (simp add: initial_state_def history_def)

lemma history_exec: "exec h n s = Inr s' \<Longrightarrow> \<exists>ys. history s' = history s @ ys"
  by (auto simp: exec_def history_merge_update split: sum.splits)

lemma history_synthesize: "\<exists>ys. history (synthesize h s) = history s @ ys"
  by (auto simp: synthesize_def history_fatal split: sum.splits dest: history_exec)

lemma history_run_branch: "\<exists>ys. history (run_branch h n s) = history s @ ys"
proof (cases "exec h n s")
  case (Inl e)
  then show ?thesis by (simp add: run_branch_def history_fatal)
next
  case (Inr s')
  from history_exec [OF Inr] obtain ys where 1: "history s' = history s @ ys" by blast
  from history_synthesize [of h s']
  obtain zs where 2: "history (synthesize h s') = history s' @ zs" by blast
  show ?thesis using Inr 1 2 by (cases "is_set (error s')") (simp_all add: run_branch_def)
qed

lemma history_router_loop: "\<exists>ys. history (router_loop h m c s) = history s @ ys"
proof (induction h m c s rule: router_loop.induct)
  case (1 h m c s)
  note eq = router_loop.simps [of h m c s]
  show ?case
  proof (cases "m \<le> c")
    case True
    then show ?thesis
      using history_run_branch [of h N_fallback "force_fallback s"]
      by (simp add: eq history_force_fallback)
  next
    case False
    show ?thesis
    proof (cases "exec h N_router s")
      case (Inl e)
      then show ?thesis using False by (simp add: eq history_fatal)
    next
      case (Inr s1)
      from history_exec [OF Inr] obtain ys where s1: "history s1 = history s @ ys" by blast
      show ?thesis
      proof (cases "is_set (error s1)")
        case True
        then show ?thesis using False Inr s1 by (simp add: eq)
      next
        case e1: False
        show ?thesis
        proof (cases "route s1")
          case None
          then show ?thesis using False Inr e1 s1 by (simp add: eq history_fatal)
        next
          case (Some r)
          show ?thesis
          proof (cases "r = Route_clarification")
            case rc: True
            show ?thesis
            proof (cases "exec h N_clarification s1")
              case (Inl e)
              then show ?thesis using False Inr e1 Some rc s1 by (simp add: eq history_fatal)
            next
              case s2: (Inr s2)
              from history_exec [OF s2] obtain zs where z: "history s2 = history s1 @ zs"
                by blast
              show ?thesis
              proof (cases "is_set (error s2)")
                case True
                then show ?thesis using False Inr e1 Some rc s2 s1 z by (simp add: eq)
              next
                case e2: False
                from "1.IH" [OF False Inr e1 Some rc s2 e2]
                obtain ws where "history (router_loop h m (Suc c) s2) = history s2 @ ws"
                  by blast
                then show ?thesis using False Inr e1 Some rc s2 e2 s1 z by (simp add: eq)
              qed
            qed
          next
            case nrc: False
            from history_run_branch [of h "node_of_route r" s1]
            obtain zs where "history (run_branch h (node_of_route r) s1) = history s1 @ zs"
              by blast
            then show ?thesis
              using False Inr e1 Some nrc s1 by (cases r) (simp_all add: eq)
          qed
        qed
      qed
    qed
  qed
qed

lemma history_after_exec:
  "\<exists>ys. history (case exec h n s of Inl e \<Rightarrow> s | Inr s' \<Rightarrow> s') = history s @ ys"
  by (cases "exec h n s") (auto dest: history_exec)

text \<open>
  C8. Every merge of a partial update into the state gives the existing history followed
  by the incoming entries; the state after the execution of a node (the state as it was
  when the handler raises) has the history before it as a prefix; and so has every request
  as a whole: whatever the handlers return, the history at termination is the prior
  history followed by further entries. No prior entry is removed, replaced or moved.
\<close>

theorem history_append_only:
  "history (merge_update s u) = history s @ history u
   \<and> (\<exists>ys. history (case exec h n s of Inl e \<Rightarrow> s | Inr s' \<Rightarrow> s') = history s @ ys)
   \<and> (\<exists>ys. history (run h maxReroutes userQuery priorHistory) = priorHistory @ ys)"
proof -
  have "\<exists>ys. history (run h maxReroutes userQuery priorHistory) = priorHistory @ ys"
    using history_router_loop [of h maxReroutes 0 "initial_state userQuery priorHistory"]
    by (simp only: run_def history_initial_state)
  then show ?thesis
    using history_after_exec [where h = h and n = n and s = s] by (simp only: history_merge_update simp_thms)
qed

subsection \<open>Exactly one terminal field at termination\<close>










end
